theory Spec2Isabelle
  imports Main
begin

section \<open>Data model of \<open>src/controllers/parseTransaction.ts\<close>\<close>

text \<open>
  The controller reconstructs one sale or swap summary from the logs of a transaction
  receipt. Only \<open>parseTransaction.ts\<close> is modelled from code; everything it imports
  (the registries, the four helper parsers, the initialiser, the ABI decoder and the
  lookups of \<open>utils/api\<close>) is a field of the environment record \<open>env\<close> below, so that
  every statement holds for whatever those modules do, or says what it assumes of them.
\<close>

subsection \<open>Registry entries and log entries\<close>

text \<open>An ABI input list, handed unread to \<open>web3.eth.abi.decodeLog\<close>: (type, name) pairs.\<close>

type_synonym abiInputs = "(string \<times> string) list"

record market =
  name :: string
  logDecoder :: "abiInputs option"

record currency =
  name :: string
  decimals :: nat

record log =
  address :: string
  topics :: "string list"
  data :: string

record receipt =
  to :: string
  from' :: string
  logs :: "log list"

text \<open>
  A decoded log is a JavaScript object: a finite map from field names to values.
  \<open>Num v\<close> is a field holding the integer \<open>v\<close> (web3 returns it as a decimal string),
  \<open>Text\<close> any other string, \<open>Items\<close> an array or tuple.
\<close>

datatype abiValue = Num int | Text string | Items "abiValue list"

type_synonym decodedLogData = "string \<rightharpoonup> abiValue"

subsection \<open>The transaction summary\<close>

record swapData =
  monitorTokenId :: "string option"

record tokenData =
  name :: string

text \<open>
  \<open>'f\<close> is the type of JavaScript numbers that carry a price. The source computes them
  with \<open>Number(formatUnits(..))\<close> and \<open>+=\<close> on doubles; both operations are fields of
  the environment, so no property of floating point is assumed. Token amounts and the
  quantity are integers. The fields \<open>toName\<close> and \<open>fromName\<close> are \<open>tx.to\<close> and
  \<open>tx.from\<close>.
\<close>

record 'f transactionData =
  market :: market
  currency :: currency
  isSwap :: bool
  isSweep :: bool
  tokens :: "int list"
  tokenType :: "string option"
  marketList :: "market list"
  prices :: "string list"
  totalPrice :: 'f
  swap :: swapData
  quantity :: int
  symbol :: string
  tokenId :: "string option"
  toAddr :: "string option"
  fromAddr :: "string option"
  toName :: string
  fromName :: string
  tokenData :: tokenData
  tokenName :: string
  sweeperAddr :: string
  sweeper :: string
  usdPrice :: "string option"
  ethUsdValue :: string
  transactionHash :: string

subsection \<open>Outcomes\<close>

text \<open>
  Every way the source can leave the function is a value. \<open>UndefinedMarket\<close> is the
  TypeError of reading a property of an undefined market descriptor, \<open>DecodeFailed\<close> the
  exception of \<open>decodeLog\<close>, \<open>InvalidBigNumber\<close> the exception of \<open>formatUnits\<close> on
  a missing or non-numeric field, \<open>ReceiptUnavailable\<close> the rejection of
  \<open>getTransactionReceipt\<close>.
\<close>

datatype error = UndefinedMarket | DecodeFailed | InvalidBigNumber | ReceiptUnavailable

text \<open>The result of one loop iteration: go on, \<open>return null\<close>, or an exception.\<close>

datatype 'a step = Next 'a | ReturnNull | Throws error

text \<open>
  The result of the whole parse. \<open>Null ls\<close> is \<open>return null\<close> after writing the lines
  \<open>ls\<close> with \<open>console.error\<close>.
\<close>

datatype 'a outcome = Threw error | Null "string list" | Resolved 'a

text \<open>What a helper parser returns, as far as the caller looks: \<open>=== null\<close> or not.\<close>

datatype parseResult = ResultNull | ResultValue

subsection \<open>The imported modules\<close>

record ('f, 'c) env =
  markets :: "string \<rightharpoonup> market"
  currencies :: "string \<rightharpoonup> currency"
  saleEventTypes :: "string list"
  getTransactionReceipt :: "string \<Rightarrow> receipt option"
  initializeTransactionData :: "'c \<Rightarrow> string \<Rightarrow> string \<Rightarrow> 'f transactionData"
  parseSwapToken :: "'f transactionData \<Rightarrow> log \<Rightarrow> string \<Rightarrow> 'f transactionData"
  parseSaleToken :: "'f transactionData \<Rightarrow> log \<Rightarrow> string \<Rightarrow> 'f transactionData"
  decodeLog :: "abiInputs \<Rightarrow> string \<Rightarrow> decodedLogData option"
  parseSeaport :: "'f transactionData \<Rightarrow> market option \<Rightarrow> decodedLogData
                     \<Rightarrow> 'f transactionData \<times> parseResult"
  parseNftTrader :: "'f transactionData \<Rightarrow> log \<Rightarrow> string \<Rightarrow> decodedLogData
                     \<Rightarrow> 'f transactionData \<times> parseResult"
  formatUnitsNumber :: "int \<Rightarrow> nat \<Rightarrow> 'f"
  addNumber :: "'f \<Rightarrow> 'f \<Rightarrow> 'f"
  formatPrice :: "'f \<Rightarrow> string"
  getReadableName :: "string \<Rightarrow> string"
  getTokenData :: "string \<Rightarrow> string \<Rightarrow> string \<Rightarrow> tokenData"
  getEthUsdPrice :: "'f \<Rightarrow> string"

text \<open>
  The registries are objects keyed by lower-case hexadecimal addresses: \<open>a in markets\<close>
  is \<open>markets env a \<noteq> None\<close>, and \<open>_.get(markets, a)\<close> is \<open>markets env a\<close>.
  \<open>getTransactionReceipt\<close> and \<open>decodeLog\<close> return \<open>None\<close> where the source throws.
  A helper parser mutates the summary it is given: the model returns the summary after
  the call, paired with the nullness of the returned value. The calls of lines 55 and 57
  are not awaited; they are taken to have finished when line 60 is reached, as a
  synchronous function has. \<open>formatUnitsNumber v d\<close> is
  \<open>Number(ethers.utils.formatUnits(v, d))\<close> and \<open>addNumber\<close> is \<open>+\<close> on numbers.
  The lookups of lines 98 to 108 are total functions.
\<close>

section \<open>The controller\<close>

subsection \<open>Strings\<close>

text \<open>\<open>String.prototype.toLowerCase\<close> on the ASCII letters an address is written with.\<close>

definition lowerChar :: "char \<Rightarrow> char" where
  "lowerChar c =
     (case map_of (zip ''ABCDEFGHIJKLMNOPQRSTUVWXYZ'' ''abcdefghijklmnopqrstuvwxyz'') c of
        None \<Rightarrow> c
      | Some l \<Rightarrow> l)"

definition toLowerCase :: "string \<Rightarrow> string" where
  "toLowerCase s = map lowerChar s"

text \<open>
  The market name of line 82: \<open>X2Y2\<close>, a space, and the code points U+2B55 U+FE0F,
  written as their UTF-8 bytes.
\<close>

definition x2y2Name :: string where
  "x2y2Name = ''X2Y2 '' @ [CHR 0xE2, CHR 0xAD, CHR 0x95, CHR 0xEF, CHR 0xB8, CHR 0x8F]"

text \<open>JavaScript truthiness of an optional string: defined and not empty.\<close>

definition truthy :: "string option \<Rightarrow> bool" where
  "truthy s = (case s of None \<Rightarrow> False | Some v \<Rightarrow> v \<noteq> [])"

text \<open>An optional string inside a template literal.\<close>

definition template :: "string option \<Rightarrow> string" where
  "template s = (case s of None \<Rightarrow> ''undefined'' | Some v \<Rightarrow> v)"

subsection \<open>Payload shapes (lines 21 to 29)\<close>

definition isSeaport :: "decodedLogData \<Rightarrow> bool" where
  "isSeaport decodedLogData = (decodedLogData ''offer'' \<noteq> None)"

definition isNftTrader :: "decodedLogData \<Rightarrow> bool" where
  "isNftTrader decodedLogData = (decodedLogData ''_swapId'' \<noteq> None)"

subsection \<open>One iteration of the loop (lines 47 to 89)\<close>

text \<open>Lines 50 to 52.\<close>

definition detectCurrency ::
  "('f, 'c) env \<Rightarrow> 'f transactionData \<Rightarrow> string \<Rightarrow> 'f transactionData" where
  "detectCurrency env tx logAddress =
     (case currencies env logAddress of
        None \<Rightarrow> tx
      | Some c \<Rightarrow> if \<not> isSweep tx then tx\<lparr>currency := c\<rparr> else tx)"

text \<open>Lines 54 to 58.\<close>

definition extractTokens ::
  "('f, 'c) env \<Rightarrow> 'f transactionData \<Rightarrow> log \<Rightarrow> string \<Rightarrow> 'f transactionData" where
  "extractTokens env tx log logAddress =
     (if isSwap tx then parseSwapToken env tx log logAddress
      else parseSaleToken env tx log logAddress)"

text \<open>
  \<open>saleEventTypes.includes(log.topics[0])\<close>: the first topic of a log without topics is
  \<open>undefined\<close>, which no list of signatures includes.
\<close>

definition includesFirstTopic :: "string list \<Rightarrow> string list \<Rightarrow> bool" where
  "includesFirstTopic types ts = (case ts of [] \<Rightarrow> False | t # _ \<Rightarrow> t \<in> set types)"

text \<open>Lines 60 and 61.\<close>

definition isSale :: "('f, 'c) env \<Rightarrow> string \<Rightarrow> log \<Rightarrow> bool" where
  "isSale env recipient log =
     (toLowerCase (address log) = recipient \<and> includesFirstTopic (saleEventTypes env) (topics log))"

definition isAggregatorSale :: "('f, 'c) env \<Rightarrow> log \<Rightarrow> bool" where
  "isAggregatorSale env log =
     (markets env (toLowerCase (address log)) \<noteq> None
      \<and> includesFirstTopic (saleEventTypes env) (topics log))"

text \<open>
  Lines 64 to 66: the descriptor whose schema decodes the log. Indexing \<open>markets\<close> with an
  address it does not hold gives \<open>undefined\<close>, and reading \<open>logDecoder\<close> of it throws.
\<close>

definition selectedMarket ::
  "('f, 'c) env \<Rightarrow> string \<Rightarrow> 'f transactionData \<Rightarrow> log \<Rightarrow> market option" where
  "selectedMarket env recipient tx log =
     (if isSale env recipient log then Some (market tx)
      else markets env (toLowerCase (address log)))"

text \<open>Lines 80 to 88, the third branch with its guard.\<close>

definition genericSale ::
  "('f, 'c) env \<Rightarrow> 'f transactionData \<Rightarrow> market option \<Rightarrow> decodedLogData
     \<Rightarrow> 'f transactionData step" where
  "genericSale env tx logMarket decodedLogData =
     (if length (marketList tx) + 1 = length (tokens tx) then
        (case logMarket of
           None \<Rightarrow> Throws UndefinedMarket
         | Some m \<Rightarrow>
             (case decodedLogData (if market.name m = x2y2Name then ''amount'' else ''price'') of
                Some (Num decodedPrice) \<Rightarrow>
                  (let price = formatUnitsNumber env decodedPrice (decimals (currency tx))
                   in Next (tx\<lparr>totalPrice := addNumber env (totalPrice tx) price,
                                marketList := marketList tx @ [m],
                                prices := prices tx @ [formatPrice env price]\<rparr>))
              | _ \<Rightarrow> Throws InvalidBigNumber))
      else Next tx)"

text \<open>
  Lines 72 to 88. After \<open>parseSeaport\<close> the source tests the result and says
  \<open>continue\<close>; nothing follows in the loop body, so both answers go on with the next log.
\<close>

definition dispatch ::
  "('f, 'c) env \<Rightarrow> 'f transactionData \<Rightarrow> log \<Rightarrow> string \<Rightarrow> market option \<Rightarrow> decodedLogData
     \<Rightarrow> 'f transactionData step" where
  "dispatch env tx log logAddress logMarket decodedLogData =
     (if isSeaport decodedLogData then
        (case parseSeaport env tx logMarket decodedLogData of
           (tx', parseResult) \<Rightarrow> if parseResult = ResultNull then Next tx' else Next tx')
      else if isNftTrader decodedLogData then
        (case parseNftTrader env tx log logAddress decodedLogData of
           (tx', parseResult) \<Rightarrow> if parseResult = ResultNull then ReturnNull else Next tx')
      else genericSale env tx logMarket decodedLogData)"

text \<open>The summary as it stands when line 60 is reached.\<close>

definition beforeSaleCheck ::
  "('f, 'c) env \<Rightarrow> 'f transactionData \<Rightarrow> log \<Rightarrow> 'f transactionData" where
  "beforeSaleCheck env tx log =
     (let logAddress = toLowerCase (address log)
      in extractTokens env (detectCurrency env tx logAddress) log logAddress)"

definition processLog ::
  "('f, 'c) env \<Rightarrow> string \<Rightarrow> 'f transactionData \<Rightarrow> log \<Rightarrow> 'f transactionData step" where
  "processLog env recipient tx log =
     (let logAddress = toLowerCase (address log);
          logMarket = markets env logAddress;
          tx2 = beforeSaleCheck env tx log
      in if isSale env recipient log \<or> isAggregatorSale env log then
           (case selectedMarket env recipient tx2 log of
              None \<Rightarrow> Throws UndefinedMarket
            | Some m \<Rightarrow>
                (case logDecoder m of
                   None \<Rightarrow> ReturnNull
                 | Some marketLogDecoder \<Rightarrow>
                     (case decodeLog env marketLogDecoder (data log) of
                        None \<Rightarrow> Throws DecodeFailed
                      | Some decodedLogData \<Rightarrow>
                          dispatch env tx2 log logAddress logMarket decodedLogData)))
         else Next tx2)"

subsection \<open>The loop (lines 46 to 90)\<close>

fun scan ::
  "('f, 'c) env \<Rightarrow> string \<Rightarrow> 'f transactionData \<Rightarrow> log list \<Rightarrow> 'f transactionData step" where
  "scan env recipient tx [] = Next tx"
| "scan env recipient tx (log # rest) =
     (case processLog env recipient tx log of
        Next tx' \<Rightarrow> scan env recipient tx' rest
      | ReturnNull \<Rightarrow> ReturnNull
      | Throws e \<Rightarrow> Throws e)"

subsection \<open>After the loop (lines 92 to 113)\<close>

definition countTokens :: "'f transactionData \<Rightarrow> int" where
  "countTokens tx =
     (if tokenType tx = Some ''ERC721'' then int (length (tokens tx)) else sum_list (tokens tx))"

definition noTokensFound :: "'f transactionData \<Rightarrow> bool" where
  "noTokensFound tx =
     ((\<not> isSwap tx \<and> quantity tx = 0) \<or> (isSwap tx \<and> \<not> truthy (monitorTokenId (swap tx))))"

definition noTokensMessage :: string where
  "noTokensMessage = ''No tokens found. Please check the contract address is correct.''"

text \<open>Lines 98 to 111: the lookups, each written into its field in the source's order.\<close>

definition enrich ::
  "('f, 'c) env \<Rightarrow> receipt \<Rightarrow> string \<Rightarrow> string \<Rightarrow> 'f transactionData \<Rightarrow> 'f transactionData" where
  "enrich env receipt hash contractAddress tx =
     (let kind = (case tokenType tx of None \<Rightarrow> ''UNKNOWN'' | Some t \<Rightarrow> t);
          td = getTokenData env contractAddress kind
                 (case monitorTokenId (swap tx) of
                    Some i \<Rightarrow> if i \<noteq> [] then i else (case tokenId tx of None \<Rightarrow> [] | Some j \<Rightarrow> j)
                  | None \<Rightarrow> (case tokenId tx of None \<Rightarrow> [] | Some j \<Rightarrow> j));
          usd = (if \<not> isSwap tx \<and> (currency.name (currency tx) = ''ETH''
                                      \<or> currency.name (currency tx) = ''WETH'')
                 then Some (getEthUsdPrice env (totalPrice tx)) else None)
      in tx\<lparr>toName := (if \<not> isSwap tx
                        then getReadableName env (case toAddr tx of None \<Rightarrow> [] | Some a \<Rightarrow> a)
                        else []),
            fromName := (if \<not> isSwap tx
                          then getReadableName env (case fromAddr tx of None \<Rightarrow> [] | Some a \<Rightarrow> a)
                          else []),
            tokenData := td,
            tokenName := (if tokenData.name td \<noteq> [] then tokenData.name td
                          else symbol tx @ '' #'' @ template (tokenId tx)),
            sweeperAddr := from' receipt,
            sweeper := (if isSweep tx then getReadableName env (from' receipt) else []),
            usdPrice := usd,
            ethUsdValue := (if truthy usd then ''($ '' @ template usd @ '')'' else []),
            transactionHash := hash\<rparr>)"

definition finalize ::
  "('f, 'c) env \<Rightarrow> receipt \<Rightarrow> string \<Rightarrow> string \<Rightarrow> 'f transactionData
     \<Rightarrow> 'f transactionData outcome" where
  "finalize env receipt hash contractAddress tx =
     (let tx' = tx\<lparr>quantity := countTokens tx\<rparr>
      in if noTokensFound tx' then Null [noTokensMessage]
         else Resolved (enrich env receipt hash contractAddress tx'))"

subsection \<open>The exported function (lines 31 to 114)\<close>

definition parseTransaction ::
  "('f, 'c) env \<Rightarrow> string \<Rightarrow> string \<Rightarrow> 'c \<Rightarrow> 'f transactionData outcome" where
  "parseTransaction env hash contractAddress contractData =
     (case getTransactionReceipt env hash of
        None \<Rightarrow> Threw ReceiptUnavailable
      | Some receipt \<Rightarrow>
          (let recipient = toLowerCase (to receipt)
           in if markets env recipient = None then Null []
              else
                (case scan env recipient
                        (initializeTransactionData env contractData recipient contractAddress)
                        (logs receipt) of
                   Throws e \<Rightarrow> Threw e
                 | ReturnNull \<Rightarrow> Null []
                 | Next tx \<Rightarrow> finalize env receipt hash contractAddress tx)))"

section \<open>Notions the statements use\<close>

text \<open>
  The payload that line 70 decodes, if this log gets there: the log is a sale event, the
  selected descriptor exists and has a schema, and \<open>decodeLog\<close> returns.
\<close>

definition decodedPayload ::
  "('f, 'c) env \<Rightarrow> string \<Rightarrow> 'f transactionData \<Rightarrow> log \<Rightarrow> decodedLogData option" where
  "decodedPayload env recipient tx log =
     (if isSale env recipient log \<or> isAggregatorSale env log then
        (case selectedMarket env recipient (beforeSaleCheck env tx log) log of
           None \<Rightarrow> None
         | Some m \<Rightarrow>
             (case logDecoder m of
                None \<Rightarrow> None
              | Some marketLogDecoder \<Rightarrow> decodeLog env marketLogDecoder (data log)))
      else None)"

text \<open>The field of the payload that line 82 reads for the market \<open>m\<close>.\<close>

definition priceField :: "market \<Rightarrow> string" where
  "priceField m = (if market.name m = x2y2Name then ''amount'' else ''price'')"

text \<open>The summary after lines 85 to 87 have credited the price \<open>v\<close> to the market \<open>m\<close>.\<close>

definition credited ::
  "('f, 'c) env \<Rightarrow> 'f transactionData \<Rightarrow> market \<Rightarrow> int \<Rightarrow> 'f transactionData" where
  "credited env tx m v =
     tx\<lparr>totalPrice := addNumber env (totalPrice tx)
                         (formatUnitsNumber env v (decimals (currency tx))),
        marketList := marketList tx @ [m],
        prices := prices tx
                  @ [formatPrice env (formatUnitsNumber env v (decimals (currency tx)))]\<rparr>"

text \<open>The invariant of the three lists.\<close>

definition summaryInvariant :: "'f transactionData \<Rightarrow> bool" where
  "summaryInvariant tx =
     (length (prices tx) = length (marketList tx) \<and> length (marketList tx) \<le> length (tokens tx))"

text \<open>Two summaries that agree on what has been paid so far.\<close>

definition samePrices :: "'f transactionData \<Rightarrow> 'f transactionData \<Rightarrow> bool" where
  "samePrices tx tx' =
     (totalPrice tx' = totalPrice tx \<and> marketList tx' = marketList tx \<and> prices tx' = prices tx)"

text \<open>The three handlers of lines 72 to 88, named as the spec names them.\<close>

datatype handler = ListingOffer | SwapEvent | GenericSale

text \<open>
  The branch of the chain that the fields of a payload select, in the order of section 4.3
  of the spec: offer-shape check first, swap-shape check second, generic fallback last.
  Whether the last branch is then entered is the guard of line 80.
\<close>

definition payloadShape :: "decodedLogData \<Rightarrow> handler" where
  "payloadShape d =
     (if d ''offer'' \<noteq> None then ListingOffer
      else if d ''_swapId'' \<noteq> None then SwapEvent
      else GenericSale)"

text \<open>
  The handlers that lines 72 to 88 execute for a payload, read off the chain
  \<open>if (isSeaport ..) .. else if (isNftTrader ..) .. else if (guard) ..\<close>: the chain has no
  final \<open>else\<close>, so when all three tests fail nothing is executed.
\<close>

definition handlersRun :: "'f transactionData \<Rightarrow> decodedLogData \<Rightarrow> handler list" where
  "handlersRun tx decodedLogData =
     (if isSeaport decodedLogData then [ListingOffer]
      else if isNftTrader decodedLogData then [SwapEvent]
      else if length (marketList tx) + 1 = length (tokens tx) then [GenericSale]
      else [])"

text \<open>Lines 81 to 87: the body of the third branch, without the guard of line 80.\<close>

definition creditPrice ::
  "('f, 'c) env \<Rightarrow> 'f transactionData \<Rightarrow> market option \<Rightarrow> decodedLogData
     \<Rightarrow> 'f transactionData step" where
  "creditPrice env tx logMarket decodedLogData =
     (case logMarket of
        None \<Rightarrow> Throws UndefinedMarket
      | Some m \<Rightarrow>
          (case decodedLogData (if market.name m = x2y2Name then ''amount'' else ''price'') of
             Some (Num decodedPrice) \<Rightarrow>
               (let price = formatUnitsNumber env decodedPrice (decimals (currency tx))
                in Next (tx\<lparr>totalPrice := addNumber env (totalPrice tx) price,
                             marketList := marketList tx @ [m],
                             prices := prices tx @ [formatPrice env price]\<rparr>))
           | _ \<Rightarrow> Throws InvalidBigNumber))"

subsection \<open>What is assumed of the helper parsers\<close>

text \<open>
  Modelled from the spec: \<open>parseSaleToken.ts\<close> and \<open>parseSwapToken.ts\<close> are not among
  the sources. Section 4.2 says that the token-movement extractor appends to
  \<open>tokens\<close> and possibly sets \<open>tokenType\<close>, and that a log irrelevant to token movement
  is a no-op; so it leaves \<open>totalPrice\<close>, \<open>marketList\<close> and \<open>prices\<close> as they are.
\<close>

definition extractorsLeavePrices :: "('f, 'c) env \<Rightarrow> bool" where
  "extractorsLeavePrices env =
     (\<forall>tx log a. samePrices tx (parseSwapToken env tx log a)
                \<and> samePrices tx (parseSaleToken env tx log a))"

text \<open>
  Modelled from the spec: \<open>parseSeaport.ts\<close> is not among the sources. Sections 4.3a and 8
  say that the listing/offer decoder returns "no price" when the order carries no executed
  consideration, and that such a payload never increments \<open>totalPrice\<close> or
  \<open>marketList\<close>.
\<close>

definition seaportSkipLeavesPrices :: "('f, 'c) env \<Rightarrow> bool" where
  "seaportSkipLeavesPrices env =
     (\<forall>tx m d tx'. parseSeaport env tx m d = (tx', ResultNull) \<longrightarrow> samePrices tx tx')"

text \<open>
  Modelled from the spec: the four helper parsers are not among the sources. Section 3
  states the invariant of the three lists as holding always; here it is what each helper is
  assumed to hand back when it is given a summary that satisfies it.
\<close>

definition helpersKeepInvariant :: "('f, 'c) env \<Rightarrow> bool" where
  "helpersKeepInvariant env =
     (\<forall>tx log a m d.
        summaryInvariant tx \<longrightarrow>
          summaryInvariant (parseSwapToken env tx log a)
          \<and> summaryInvariant (parseSaleToken env tx log a)
          \<and> summaryInvariant (fst (parseSeaport env tx m d))
          \<and> summaryInvariant (fst (parseNftTrader env tx log a d)))"

text \<open>
  Modelled from the spec: the four helper parsers are not among the sources. Section 3
  lists \<open>isSweep\<close> among the flags fixed before the scan, and section 4.1 gives currency
  detection as the only step that writes \<open>currency\<close>.
\<close>

definition helpersLeaveCurrency :: "('f, 'c) env \<Rightarrow> bool" where
  "helpersLeaveCurrency env =
     (\<forall>tx log a m d.
        (let t = parseSwapToken env tx log a in currency t = currency tx \<and> isSweep t = isSweep tx)
        \<and> (let t = parseSaleToken env tx log a in currency t = currency tx \<and> isSweep t = isSweep tx)
        \<and> (let t = fst (parseSeaport env tx m d) in currency t = currency tx \<and> isSweep t = isSweep tx)
        \<and> (let t = fst (parseNftTrader env tx log a d)
            in currency t = currency tx \<and> isSweep t = isSweep tx))"

section \<open>A test environment\<close>

text \<open>
  A small registry and executable stand-ins for the imported modules, in the shape of the
  repository's configuration. Prices are exact decimals: the pair \<open>(v, d)\<close> is
  \<open>v / 10 ^ d\<close>.
\<close>

type_synonym decimal = "int \<times> nat"

definition addDecimal :: "decimal \<Rightarrow> decimal \<Rightarrow> decimal" where
  "addDecimal a b =
     (let d = max (snd a) (snd b)
      in (fst a * 10 ^ (d - snd a) + fst b * 10 ^ (d - snd b), d))"

definition testMarkets :: "string \<rightharpoonup> market" where
  "testMarkets = map_of
     [(''0xlooksrare'', \<lparr>market.name = ''LooksRare'', logDecoder = Some [(''uint256'', ''price'')]\<rparr>),
      (''0xx2y2'', \<lparr>market.name = x2y2Name, logDecoder = Some [(''uint256'', ''amount'')]\<rparr>),
      (''0xseaport'', \<lparr>market.name = ''Opensea'', logDecoder = Some [(''tuple[]'', ''offer'')]\<rparr>),
      (''0xnfttrader'', \<lparr>market.name = ''NFT Trader'', logDecoder = Some [(''bytes32'', ''_swapId'')]\<rparr>),
      (''0xgem'', \<lparr>market.name = ''Gem'', logDecoder = None\<rparr>)]"

definition testCurrencies :: "string \<rightharpoonup> currency" where
  "testCurrencies = map_of
     [(''0xweth'', \<lparr>currency.name = ''WETH'', decimals = 18\<rparr>),
      (''0xusdc'', \<lparr>currency.name = ''USDC'', decimals = 6\<rparr>)]"

text \<open>The decoder stand-in knows five payloads by their data.\<close>

definition testDecodeLog :: "abiInputs \<Rightarrow> string \<Rightarrow> decodedLogData option" where
  "testDecodeLog schema d =
     (if d = ''0xprice'' then Some (map_of [(''price'', Num 1000000000000000000)])
      else if d = ''0xamount'' then Some (map_of [(''amount'', Num 2500000), (''price'', Num 7)])
      else if d = ''0xoffer'' then Some (map_of [(''offer'', Items []), (''_swapId'', Text ''9'')])
      else if d = ''0xswap'' then Some (map_of [(''_swapId'', Text ''9'')])
      else if d = ''0xswapfail'' then Some (map_of [(''_swapId'', Text ''0'')])
      else None)"

definition testSaleToken ::
  "decimal transactionData \<Rightarrow> log \<Rightarrow> string \<Rightarrow> decimal transactionData" where
  "testSaleToken tx log logAddress =
     (if includesFirstTopic [''0xtransfer''] (topics log) \<and> logAddress = ''0xnft''
      then tx\<lparr>tokens := tokens tx @ [1], tokenType := Some ''ERC721'', tokenId := Some ''1''\<rparr>
      else tx)"

definition testSwapToken ::
  "decimal transactionData \<Rightarrow> log \<Rightarrow> string \<Rightarrow> decimal transactionData" where
  "testSwapToken tx log logAddress =
     (if includesFirstTopic [''0xtransfer''] (topics log) \<and> logAddress = ''0xnft''
      then tx\<lparr>tokens := tokens tx @ [1]\<rparr>
      else tx)"

text \<open>An order without consideration carries no price; an order with one is not needed here.\<close>

definition testSeaport ::
  "decimal transactionData \<Rightarrow> market option \<Rightarrow> decodedLogData
     \<Rightarrow> decimal transactionData \<times> parseResult" where
  "testSeaport tx logMarket d = (tx, ResultNull)"

definition testNftTrader ::
  "decimal transactionData \<Rightarrow> log \<Rightarrow> string \<Rightarrow> decodedLogData
     \<Rightarrow> decimal transactionData \<times> parseResult" where
  "testNftTrader tx log logAddress d =
     (if d ''_swapId'' = Some (Text ''9'')
      then (tx\<lparr>swap := \<lparr>monitorTokenId = Some ''9''\<rparr>\<rparr>, ResultValue)
      else (tx, ResultNull))"

definition testInitialize :: "string \<Rightarrow> string \<Rightarrow> string \<Rightarrow> decimal transactionData" where
  "testInitialize contractData recipient contractAddress =
     \<lparr>market = (case testMarkets recipient of
                  None \<Rightarrow> \<lparr>market.name = [], logDecoder = None\<rparr> | Some m \<Rightarrow> m),
      currency = \<lparr>currency.name = ''ETH'', decimals = 18\<rparr>,
      isSwap = (recipient = ''0xnfttrader''),
      isSweep = (recipient = ''0xgem''),
      tokens = [], tokenType = None, marketList = [], prices = [], totalPrice = (0, 0),
      swap = \<lparr>monitorTokenId = None\<rparr>, quantity = 0, symbol = contractData,
      tokenId = None, toAddr = None, fromAddr = None, toName = [], fromName = [],
      tokenData = \<lparr>tokenData.name = []\<rparr>, tokenName = [], sweeperAddr = [], sweeper = [],
      usdPrice = None, ethUsdValue = [], transactionHash = []\<rparr>"

definition transferLog :: log where
  "transferLog = \<lparr>address = ''0xNFT'', topics = [''0xtransfer''], data = ''0x''\<rparr>"

definition looksrareSale :: log where
  "looksrareSale = \<lparr>address = ''0xLooksRare'', topics = [''0xsale''], data = ''0xprice''\<rparr>"

definition x2y2Sale :: log where
  "x2y2Sale = \<lparr>address = ''0xx2y2'', topics = [''0xsale''], data = ''0xamount''\<rparr>"

definition seaportOrder :: log where
  "seaportOrder = \<lparr>address = ''0xseaport'', topics = [''0xsale''], data = ''0xoffer''\<rparr>"

definition failedSwap :: log where
  "failedSwap = \<lparr>address = ''0xnfttrader'', topics = [''0xsale''], data = ''0xswapfail''\<rparr>"

definition resolvedSwap :: log where
  "resolvedSwap = \<lparr>address = ''0xnfttrader'', topics = [''0xsale''], data = ''0xswap''\<rparr>"

definition gemSale :: log where
  "gemSale = \<lparr>address = ''0xgem'', topics = [''0xsale''], data = ''0xprice''\<rparr>"

definition wethLog :: log where
  "wethLog = \<lparr>address = ''0xWETH'', topics = [''0xdeposit''], data = ''0x''\<rparr>"

definition testReceipts :: "string \<Rightarrow> receipt option" where
  "testReceipts hash =
     (if hash = ''0x01'' then
        Some \<lparr>to = ''0xLooksRare'', from' = ''0xbuyer'', logs = [wethLog, transferLog, looksrareSale]\<rparr>
      else if hash = ''0x02'' then
        Some \<lparr>to = ''0xGem'', from' = ''0xbuyer'', logs = [transferLog, gemSale]\<rparr>
      else if hash = ''0x03'' then
        Some \<lparr>to = ''0xunknown'', from' = ''0xbuyer'', logs = [transferLog, looksrareSale]\<rparr>
      else if hash = ''0x04'' then
        Some \<lparr>to = ''0xNftTrader'', from' = ''0xbuyer'', logs = [transferLog, failedSwap]\<rparr>
      else if hash = ''0x05'' then
        Some \<lparr>to = ''0xNftTrader'', from' = ''0xbuyer'', logs = [transferLog]\<rparr>
      else if hash = ''0x06'' then
        Some \<lparr>to = ''0xNftTrader'', from' = ''0xbuyer'', logs = [transferLog, resolvedSwap]\<rparr>
      else None)"

definition testEnv :: "(decimal, string) env" where
  "testEnv =
     \<lparr>markets = testMarkets, currencies = testCurrencies, saleEventTypes = [''0xsale''],
      getTransactionReceipt = testReceipts,
      initializeTransactionData = testInitialize,
      parseSwapToken = testSwapToken, parseSaleToken = testSaleToken,
      decodeLog = testDecodeLog,
      parseSeaport = testSeaport, parseNftTrader = testNftTrader,
      formatUnitsNumber = (\<lambda>v d. (v, d)), addNumber = addDecimal,
      formatPrice = (\<lambda>p. if p = (1000000000000000000, 18) then ''1'' else ''?''),
      getReadableName = (\<lambda>a. a),
      getTokenData = (\<lambda>contractAddress kind i. \<lparr>tokenData.name = []\<rparr>),
      getEthUsdPrice = (\<lambda>p. ''1800.00'')\<rparr>"

section \<open>Properties of the scan\<close>

subsection \<open>Auxiliary facts\<close>

lemma scan_append:
  "scan env recipient tx (xs @ ys) =
     (case scan env recipient tx xs of
        Next tx' \<Rightarrow> scan env recipient tx' ys
      | ReturnNull \<Rightarrow> ReturnNull
      | Throws e \<Rightarrow> Throws e)"
  by (induction xs arbitrary: tx) (auto split: step.splits)

lemma scan_take_Suc:
  assumes "i < length ls" and "scan env recipient tx (take i ls) = Next txi"
  shows "scan env recipient tx ls =
     (case processLog env recipient txi (ls ! i) of
        Next tx' \<Rightarrow> scan env recipient tx' (drop (Suc i) ls)
      | ReturnNull \<Rightarrow> ReturnNull
      | Throws e \<Rightarrow> Throws e)"
proof -
  from assms(1) have "ls = take i ls @ (ls ! i) # drop (Suc i) ls"
    by (simp add: id_take_nth_drop)
  then have "scan env recipient tx ls = scan env recipient tx (take i ls @ (ls ! i) # drop (Suc i) ls)"
    by simp
  also have "\<dots> = scan env recipient txi ((ls ! i) # drop (Suc i) ls)"
    by (simp only: scan_append assms(2) step.case)
  finally show ?thesis by simp
qed

lemma processLog_decoded:
  assumes "decodedPayload env recipient tx log = Some d"
  shows "processLog env recipient tx log =
           dispatch env (beforeSaleCheck env tx log) log (toLowerCase (address log))
             (markets env (toLowerCase (address log))) d"
  using assms
  by (auto simp: decodedPayload_def processLog_def Let_def split: if_splits option.splits)

lemma sale_market_defined:
  assumes "markets env recipient \<noteq> None"
    and "isSale env recipient log \<or> isAggregatorSale env log"
  shows "markets env (toLowerCase (address log)) \<noteq> None"
  using assms by (auto simp: isSale_def isAggregatorSale_def)

lemma toLowerCase_LooksRare: "toLowerCase ''0xLooksRare'' = ''0xlooksrare''"
  by (simp add: toLowerCase_def lowerChar_def)

subsection \<open>An unknown recipient\<close>

text \<open>
  C9. When the receipt's recipient, in lower case, is not a key of the market registry,
  the parse returns null without writing to the console, whatever the logs of the receipt
  and whatever the imported modules do: no log is looked at.
\<close>

theorem unknown_recipient_returns_null:
  assumes "getTransactionReceipt env hash = Some receipt"
    and "markets env (toLowerCase (to receipt)) = None"
  shows "parseTransaction env hash contractAddress contractData = Null []"
  using assms by (simp add: parseTransaction_def)

theorem unknown_recipient_returns_null_witness:
  "getTransactionReceipt testEnv ''0x03'' \<noteq> None
   \<and> parseTransaction testEnv ''0x03'' ''0xnft'' ''PUNK'' = Null []"
proof -
  have r: "getTransactionReceipt testEnv ''0x03''
           = Some \<lparr>to = ''0xunknown'', from' = ''0xbuyer'', logs = [transferLog, looksrareSale]\<rparr>"
    by (simp add: testEnv_def testReceipts_def)
  have m: "markets testEnv (toLowerCase (to \<lparr>to = ''0xunknown'', from' = ''0xbuyer'',
             logs = [transferLog, looksrareSale]\<rparr>)) = None"
    by (simp add: testEnv_def testMarkets_def toLowerCase_def lowerChar_def)
  from unknown_recipient_returns_null [OF r m] r show ?thesis by simp
qed

subsection \<open>The market of a sale log is defined\<close>

lemma genericSale_no_undefined_market:
  "genericSale env tx (Some lm) d \<noteq> Throws UndefinedMarket"
  by (simp add: genericSale_def Let_def split: option.split abiValue.split)

lemma dispatch_no_undefined_market:
  "dispatch env tx log la (Some lm) d \<noteq> Throws UndefinedMarket"
  by (simp add: dispatch_def genericSale_no_undefined_market split: prod.split)

lemma selectedMarket_defined:
  assumes "markets env (toLowerCase (address log)) = Some lm"
  shows "selectedMarket env recipient tx log \<noteq> None"
  using assms by (simp add: selectedMarket_def)

lemma processLog_no_undefined_market:
  assumes "markets env recipient \<noteq> None"
  shows "processLog env recipient tx log \<noteq> Throws UndefinedMarket"
proof (cases "isSale env recipient log \<or> isAggregatorSale env log")
  case False
  then show ?thesis by (simp add: processLog_def Let_def)
next
  case True
  with assms obtain lm where lm: "markets env (toLowerCase (address log)) = Some lm"
    using sale_market_defined by blast
  obtain m where m: "selectedMarket env recipient (beforeSaleCheck env tx log) log = Some m"
    using selectedMarket_defined [OF lm] by blast
  show ?thesis
    using True
    by (simp add: processLog_def Let_def m lm dispatch_no_undefined_market split: option.split)
qed

lemma scan_no_undefined_market:
  assumes "markets env recipient \<noteq> None"
  shows "scan env recipient tx ls \<noteq> Throws UndefinedMarket"
proof (induction ls arbitrary: tx)
  case Nil
  show ?case by simp
next
  case (Cons l ls)
  show ?case
    using processLog_no_undefined_market [OF assms, of tx l] Cons.IH
    by (cases "processLog env recipient tx l") auto
qed

lemma finalize_not_Threw: "finalize env receipt hash contractAddress tx \<noteq> Threw e"
  by (simp add: finalize_def Let_def)

lemma parseTransaction_no_undefined_market:
  "parseTransaction env hash contractAddress contractData \<noteq> Threw UndefinedMarket"
proof (cases "getTransactionReceipt env hash")
  case None
  then show ?thesis by (simp add: parseTransaction_def)
next
  case (Some receipt)
  show ?thesis
  proof (cases "markets env (toLowerCase (to receipt)) = None")
    case True
    with Some show ?thesis by (simp add: parseTransaction_def)
  next
    case False
    from scan_no_undefined_market [OF False, of
        "initializeTransactionData env contractData (toLowerCase (to receipt)) contractAddress"
        "logs receipt"] Some False
    show ?thesis
      by (cases "scan env (toLowerCase (to receipt))
            (initializeTransactionData env contractData (toLowerCase (to receipt)) contractAddress)
            (logs receipt)")
         (auto simp: parseTransaction_def finalize_not_Threw)
  qed
qed

text \<open>
  C10. With the recipient in the market registry (line 40 has checked it when the loop
  runs), a log that satisfies the recipient-sale condition satisfies the aggregator-sale
  condition too, and whenever either holds the registry has a descriptor at the log's
  address. So no iteration, no scan and no parse ends in the TypeError of reading
  \<open>name\<close> or \<open>logDecoder\<close> of an undefined descriptor.
\<close>

theorem sale_branch_market_defined:
  "(markets env recipient \<noteq> None \<longrightarrow>
      (isSale env recipient log \<longrightarrow> isAggregatorSale env log)
      \<and> (isSale env recipient log \<or> isAggregatorSale env log
           \<longrightarrow> markets env (toLowerCase (address log)) \<noteq> None)
      \<and> processLog env recipient tx log \<noteq> Throws UndefinedMarket
      \<and> scan env recipient tx ls \<noteq> Throws UndefinedMarket)
   \<and> parseTransaction env hash contractAddress contractData \<noteq> Threw UndefinedMarket"
proof -
  have "markets env recipient \<noteq> None \<Longrightarrow> isSale env recipient log
      \<Longrightarrow> isAggregatorSale env log"
    by (auto simp: isSale_def isAggregatorSale_def)
  then show ?thesis
    using sale_market_defined [of env recipient log]
      processLog_no_undefined_market [of env recipient tx log]
      scan_no_undefined_market [of env recipient tx ls]
      parseTransaction_no_undefined_market [of env hash contractAddress contractData]
    by blast
qed

theorem sale_branch_market_defined_witness:
  "markets testEnv ''0xlooksrare'' \<noteq> None
   \<and> isSale testEnv ''0xlooksrare'' looksrareSale
   \<and> isAggregatorSale testEnv looksrareSale
   \<and> markets testEnv (toLowerCase (address looksrareSale)) \<noteq> None
   \<and> processLog testEnv ''0xlooksrare'' (testInitialize ''PUNK'' ''0xlooksrare'' ''0xnft'')
         looksrareSale \<noteq> Throws UndefinedMarket"
proof -
  have m: "markets testEnv ''0xlooksrare'' \<noteq> None"
    by (simp add: testEnv_def testMarkets_def)
  have s: "isSale testEnv ''0xlooksrare'' looksrareSale"
    by (simp add: isSale_def looksrareSale_def toLowerCase_LooksRare includesFirstTopic_def
        testEnv_def)
  from sale_branch_market_defined [of testEnv "''0xlooksrare''" looksrareSale
      "testInitialize ''PUNK'' ''0xlooksrare'' ''0xnft''" "[]" "''0x01''" "''0xnft'' " "''PUNK''"]
    m s
  show ?thesis by blast
qed

subsection \<open>Evaluating the test environment\<close>

lemmas controller_defs =
  processLog_def beforeSaleCheck_def detectCurrency_def extractTokens_def isSale_def
  isAggregatorSale_def includesFirstTopic_def selectedMarket_def dispatch_def genericSale_def
  isSeaport_def isNftTrader_def decodedPayload_def toLowerCase_def lowerChar_def Let_def

lemmas test_defs =
  testEnv_def testMarkets_def testCurrencies_def testReceipts_def testInitialize_def
  testSaleToken_def testSwapToken_def testSeaport_def testNftTrader_def testDecodeLog_def
  transferLog_def looksrareSale_def x2y2Sale_def seaportOrder_def failedSwap_def
  resolvedSwap_def gemSale_def wethLog_def

subsection \<open>A sale log without a schema\<close>

lemma processLog_missing_schema:
  assumes "isSale env recipient log \<or> isAggregatorSale env log"
    and "selectedMarket env recipient (beforeSaleCheck env tx log) log = Some m"
    and "logDecoder m = None"
  shows "processLog env recipient tx log = ReturnNull"
  using assms by (simp add: processLog_def Let_def)

lemma parseTransaction_abort_at:
  assumes "getTransactionReceipt env hash = Some receipt"
    and "i < length (logs receipt)"
    and "scan env (toLowerCase (to receipt))
           (initializeTransactionData env contractData (toLowerCase (to receipt)) contractAddress)
           (take i (logs receipt)) = Next tx"
    and "processLog env (toLowerCase (to receipt)) tx (logs receipt ! i) = ReturnNull"
  shows "parseTransaction env hash contractAddress contractData = Null []"
  using assms(1) scan_take_Suc [OF assms(2) assms(3)] assms(4)
  by (simp add: parseTransaction_def Let_def)

text \<open>
  C3. Let the scan reach the log at position \<open>i\<close> with the summary \<open>tx\<close>. If that log
  is a sale event (by either condition) and the descriptor selected at lines 64 to 66 has no
  \<open>logDecoder\<close>, the iteration returns null and so does the whole parse: the result is
  \<open>Null\<close>, never a summary, and nothing is written to the console.
\<close>

theorem missing_schema_aborts:
  assumes "getTransactionReceipt env hash = Some receipt"
    and "recipient = toLowerCase (to receipt)"
    and "i < length (logs receipt)"
    and "scan env recipient
           (initializeTransactionData env contractData recipient contractAddress)
           (take i (logs receipt)) = Next tx"
    and "isSale env recipient (logs receipt ! i) \<or> isAggregatorSale env (logs receipt ! i)"
    and "selectedMarket env recipient (beforeSaleCheck env tx (logs receipt ! i))
           (logs receipt ! i) = Some m"
    and "logDecoder m = None"
  shows "processLog env recipient tx (logs receipt ! i) = ReturnNull
         \<and> parseTransaction env hash contractAddress contractData = Null []"
proof -
  have p: "processLog env recipient tx (logs receipt ! i) = ReturnNull"
    using assms(5-7) by (rule processLog_missing_schema)
  with assms(1-4) show ?thesis
    using parseTransaction_abort_at [of env hash receipt i contractData contractAddress tx]
    by simp
qed

theorem missing_schema_aborts_witness:
  "parseTransaction testEnv ''0x02'' ''0xnft'' ''PUNK'' = Null []"
proof -
  define receipt where
    "receipt = \<lparr>to = ''0xGem'', from' = ''0xbuyer'', logs = [transferLog, gemSale]\<rparr>"
  define tx0 where "tx0 = initializeTransactionData testEnv ''PUNK'' ''0xgem'' ''0xnft''"
  define tx1 where "tx1 = beforeSaleCheck testEnv tx0 transferLog"
  have h1: "getTransactionReceipt testEnv ''0x02'' = Some receipt"
    by (simp add: testEnv_def testReceipts_def receipt_def)
  have h2: "''0xgem'' = toLowerCase (to receipt)"
    by (simp add: receipt_def toLowerCase_def lowerChar_def)
  have h3: "1 < length (logs receipt)"
    by (simp add: receipt_def)
  have "processLog testEnv ''0xgem'' tx0 transferLog = Next tx1"
    by (simp add: tx1_def processLog_def isSale_def isAggregatorSale_def transferLog_def
        toLowerCase_def lowerChar_def includesFirstTopic_def testEnv_def)
  then have h4: "scan testEnv ''0xgem'' tx0 (take 1 (logs receipt)) = Next tx1"
    by (simp add: receipt_def)
  have h5: "isSale testEnv ''0xgem'' (logs receipt ! 1)
            \<or> isAggregatorSale testEnv (logs receipt ! 1)"
    by (simp add: receipt_def isSale_def gemSale_def toLowerCase_def lowerChar_def
        includesFirstTopic_def testEnv_def)
  have h6: "selectedMarket testEnv ''0xgem'' (beforeSaleCheck testEnv tx1 (logs receipt ! 1))
              (logs receipt ! 1) = Some \<lparr>market.name = ''Gem'', logDecoder = None\<rparr>"
    by (simp add: receipt_def tx1_def tx0_def controller_defs test_defs)
  have h7: "logDecoder \<lparr>market.name = ''Gem'', logDecoder = None\<rparr> = None"
    by simp
  from missing_schema_aborts [OF h1 h2 h3 h4 [unfolded tx0_def] h5 h6 h7]
  show ?thesis by simp
qed

subsection \<open>Swap failures\<close>

lemma processLog_swap_failure:
  assumes "decodedPayload env recipient tx log = Some d"
    and "\<not> isSeaport d" and "isNftTrader d"
    and "snd (parseNftTrader env (beforeSaleCheck env tx log) log (toLowerCase (address log)) d)
           = ResultNull"
  shows "processLog env recipient tx log = ReturnNull"
  using assms(2-4)
  by (cases "parseNftTrader env (beforeSaleCheck env tx log) log (toLowerCase (address log)) d")
     (simp add: processLog_decoded [OF assms(1)] dispatch_def)

lemma parseTransaction_finished:
  assumes "getTransactionReceipt env hash = Some receipt"
    and "markets env (toLowerCase (to receipt)) \<noteq> None"
    and "scan env (toLowerCase (to receipt))
           (initializeTransactionData env contractData (toLowerCase (to receipt)) contractAddress)
           (logs receipt) = Next tx"
  shows "parseTransaction env hash contractAddress contractData
           = finalize env receipt hash contractAddress tx"
  using assms by (auto simp: parseTransaction_def Let_def)

lemma finalize_unresolved_swap:
  assumes "isSwap tx" and "\<not> truthy (monitorTokenId (swap tx))"
  shows "finalize env receipt hash contractAddress tx = Null [noTokensMessage]"
  using assms by (simp add: finalize_def noTokensFound_def Let_def)

text \<open>
  C4. For a transaction whose recipient is a registered market: (a) if the scan reaches a
  sale-event log whose payload has no \<open>offer\<close> field but a \<open>_swapId\<close> field, and
  \<open>parseNftTrader\<close> returns null on it, the parse returns null; (b) if the scan ends
  with \<open>isSwap\<close> set and \<open>swap.monitorTokenId\<close> undefined or empty, the parse returns
  null after the console line of line 95. Neither case yields a summary.
\<close>

theorem swap_failure_aborts:
  assumes "getTransactionReceipt env hash = Some receipt"
    and "recipient = toLowerCase (to receipt)"
    and "markets env recipient \<noteq> None"
    and "tx0 = initializeTransactionData env contractData recipient contractAddress"
  shows "(\<forall>i tx d.
            i < length (logs receipt)
            \<and> scan env recipient tx0 (take i (logs receipt)) = Next tx
            \<and> decodedPayload env recipient tx (logs receipt ! i) = Some d
            \<and> \<not> isSeaport d \<and> isNftTrader d
            \<and> snd (parseNftTrader env (beforeSaleCheck env tx (logs receipt ! i))
                     (logs receipt ! i) (toLowerCase (address (logs receipt ! i))) d) = ResultNull
            \<longrightarrow> parseTransaction env hash contractAddress contractData = Null [])
       \<and> (\<forall>tx.
            scan env recipient tx0 (logs receipt) = Next tx
            \<and> isSwap tx \<and> \<not> truthy (monitorTokenId (swap tx))
            \<longrightarrow> parseTransaction env hash contractAddress contractData = Null [noTokensMessage])"
proof (intro conjI allI impI)
  fix i tx d
  assume a: "i < length (logs receipt)
            \<and> scan env recipient tx0 (take i (logs receipt)) = Next tx
            \<and> decodedPayload env recipient tx (logs receipt ! i) = Some d
            \<and> \<not> isSeaport d \<and> isNftTrader d
            \<and> snd (parseNftTrader env (beforeSaleCheck env tx (logs receipt ! i))
                     (logs receipt ! i) (toLowerCase (address (logs receipt ! i))) d) = ResultNull"
  then have "processLog env recipient tx (logs receipt ! i) = ReturnNull"
    using processLog_swap_failure by blast
  with a assms show "parseTransaction env hash contractAddress contractData = Null []"
    using parseTransaction_abort_at [of env hash receipt i contractData contractAddress tx]
    by simp
next
  fix tx
  assume b: "scan env recipient tx0 (logs receipt) = Next tx
            \<and> isSwap tx \<and> \<not> truthy (monitorTokenId (swap tx))"
  with assms have "parseTransaction env hash contractAddress contractData
      = finalize env receipt hash contractAddress tx"
    using parseTransaction_finished [of env hash receipt contractData contractAddress tx]
    by simp
  with b show "parseTransaction env hash contractAddress contractData = Null [noTokensMessage]"
    by (simp add: finalize_unresolved_swap)
qed

lemma toLowerCase_NftTrader: "toLowerCase ''0xNftTrader'' = ''0xnfttrader''"
  by (simp add: toLowerCase_def lowerChar_def)

theorem swap_failure_aborts_witness:
  "parseTransaction testEnv ''0x04'' ''0xnft'' ''PUNK'' = Null []
   \<and> parseTransaction testEnv ''0x05'' ''0xnft'' ''PUNK'' = Null [noTokensMessage]"
proof -
  define r4 where
    "r4 = \<lparr>to = ''0xNftTrader'', from' = ''0xbuyer'', logs = [transferLog, failedSwap]\<rparr>"
  define r5 where
    "r5 = \<lparr>to = ''0xNftTrader'', from' = ''0xbuyer'', logs = [transferLog]\<rparr>"
  define tx0 where "tx0 = initializeTransactionData testEnv ''PUNK'' ''0xnfttrader'' ''0xnft''"
  define tx1 where "tx1 = beforeSaleCheck testEnv tx0 transferLog"
  have m: "markets testEnv ''0xnfttrader'' \<noteq> None"
    by (simp add: testEnv_def testMarkets_def)
  have g4: "getTransactionReceipt testEnv ''0x04'' = Some r4"
    by (simp add: testEnv_def testReceipts_def r4_def)
  have g5: "getTransactionReceipt testEnv ''0x05'' = Some r5"
    by (simp add: testEnv_def testReceipts_def r5_def)
  have l4: "''0xnfttrader'' = toLowerCase (to r4)"
    by (simp add: r4_def toLowerCase_NftTrader)
  have l5: "''0xnfttrader'' = toLowerCase (to r5)"
    by (simp add: r5_def toLowerCase_NftTrader)
  have p: "processLog testEnv ''0xnfttrader'' tx0 transferLog = Next tx1"
    by (simp add: tx1_def processLog_def isSale_def isAggregatorSale_def transferLog_def
        toLowerCase_def lowerChar_def includesFirstTopic_def testEnv_def)
  have a: "1 < length (logs r4)
            \<and> scan testEnv ''0xnfttrader'' tx0 (take 1 (logs r4)) = Next tx1
            \<and> decodedPayload testEnv ''0xnfttrader'' tx1 (logs r4 ! 1)
                = Some (map_of [(''_swapId'', Text ''0'')])
            \<and> \<not> isSeaport (map_of [(''_swapId'', Text ''0'')])
            \<and> isNftTrader (map_of [(''_swapId'', Text ''0'')])
            \<and> snd (parseNftTrader testEnv (beforeSaleCheck testEnv tx1 (logs r4 ! 1))
                     (logs r4 ! 1) (toLowerCase (address (logs r4 ! 1)))
                     (map_of [(''_swapId'', Text ''0'')])) = ResultNull"
    using p by (simp add: r4_def tx1_def tx0_def controller_defs test_defs)
  have b: "scan testEnv ''0xnfttrader'' tx0 (logs r5) = Next tx1
            \<and> isSwap tx1 \<and> \<not> truthy (monitorTokenId (swap tx1))"
    using p by (simp add: r5_def tx1_def tx0_def controller_defs test_defs truthy_def)
  from swap_failure_aborts [OF g4 l4 m tx0_def] a
  have "parseTransaction testEnv ''0x04'' ''0xnft'' ''PUNK'' = Null []"
    by blast
  moreover from swap_failure_aborts [OF g5 l5 m tx0_def] b
  have "parseTransaction testEnv ''0x05'' ''0xnft'' ''PUNK'' = Null [noTokensMessage]"
    by blast
  ultimately show ?thesis by simp
qed

subsection \<open>Quantity and the final check\<close>

lemma quantity_enrich:
  "quantity (enrich env receipt hash contractAddress tx) = quantity tx"
  by (simp add: enrich_def Let_def)

lemma finalize_cases:
  "finalize env receipt hash contractAddress tx =
     (if (\<not> isSwap tx \<and> countTokens tx = 0) \<or> (isSwap tx \<and> \<not> truthy (monitorTokenId (swap tx)))
      then Null [noTokensMessage]
      else Resolved (enrich env receipt hash contractAddress (tx\<lparr>quantity := countTokens tx\<rparr>)))"
  by (simp add: finalize_def noTokensFound_def Let_def)

text \<open>
  C6. Let the scan of a registered recipient's receipt end without abort in the summary
  \<open>tx\<close>, and let \<open>q\<close> be the number of tokens when \<open>tokenType\<close> is \<open>ERC721\<close> and
  the sum of \<open>tokens\<close> otherwise. If the transaction is not a swap and \<open>q = 0\<close>, or is
  a swap whose \<open>monitorTokenId\<close> is undefined or empty, the parse writes the "No tokens
  found" line and returns null (it does not throw). In every other case it returns a
  summary whose \<open>quantity\<close> is \<open>q\<close>.
\<close>

theorem quantity_and_no_tokens:
  assumes "getTransactionReceipt env hash = Some receipt"
    and "recipient = toLowerCase (to receipt)"
    and "markets env recipient \<noteq> None"
    and "scan env recipient
           (initializeTransactionData env contractData recipient contractAddress)
           (logs receipt) = Next tx"
    and "q = (if tokenType tx = Some ''ERC721'' then int (length (tokens tx))
              else sum_list (tokens tx))"
    and "none = ((\<not> isSwap tx \<and> q = 0) \<or> (isSwap tx \<and> \<not> truthy (monitorTokenId (swap tx))))"
  shows "(none \<longrightarrow> parseTransaction env hash contractAddress contractData = Null [noTokensMessage])
       \<and> (\<not> none \<longrightarrow>
            (\<exists>s. parseTransaction env hash contractAddress contractData = Resolved s
                 \<and> quantity s = q))"
proof -
  have "parseTransaction env hash contractAddress contractData
      = finalize env receipt hash contractAddress tx"
    using assms(1-4)
      parseTransaction_finished [of env hash receipt contractData contractAddress tx]
    by simp
  moreover have "countTokens tx = q"
    using assms(5) by (simp add: countTokens_def)
  ultimately show ?thesis
    using assms(6) by (simp add: finalize_cases quantity_enrich)
qed

theorem quantity_and_no_tokens_witness:
  "(\<exists>s. parseTransaction testEnv ''0x01'' ''0xnft'' ''PUNK'' = Resolved s \<and> quantity s = 1)
   \<and> parseTransaction testEnv ''0x05'' ''0xnft'' ''PUNK'' = Null [noTokensMessage]"
proof -
  define r1 where
    "r1 = \<lparr>to = ''0xLooksRare'', from' = ''0xbuyer'',
           logs = [wethLog, transferLog, looksrareSale]\<rparr>"
  define r5 where
    "r5 = \<lparr>to = ''0xNftTrader'', from' = ''0xbuyer'', logs = [transferLog]\<rparr>"
  have g1: "getTransactionReceipt testEnv ''0x01'' = Some r1"
    by (simp add: testEnv_def testReceipts_def r1_def)
  have g5: "getTransactionReceipt testEnv ''0x05'' = Some r5"
    by (simp add: testEnv_def testReceipts_def r5_def)
  have l1: "''0xlooksrare'' = toLowerCase (to r1)"
    by (simp add: r1_def toLowerCase_LooksRare)
  have l5: "''0xnfttrader'' = toLowerCase (to r5)"
    by (simp add: r5_def toLowerCase_NftTrader)
  have m1: "markets testEnv ''0xlooksrare'' \<noteq> None"
    by (simp add: testEnv_def testMarkets_def)
  have m5: "markets testEnv ''0xnfttrader'' \<noteq> None"
    by (simp add: testEnv_def testMarkets_def)
  have "\<exists>tx. scan testEnv ''0xlooksrare''
               (initializeTransactionData testEnv ''PUNK'' ''0xlooksrare'' ''0xnft'') (logs r1)
             = Next tx
           \<and> tokenType tx = Some ''ERC721'' \<and> tokens tx = [1] \<and> \<not> isSwap tx"
    by (simp add: r1_def controller_defs test_defs x2y2Name_def)
  then obtain tx where s1: "scan testEnv ''0xlooksrare''
               (initializeTransactionData testEnv ''PUNK'' ''0xlooksrare'' ''0xnft'') (logs r1)
             = Next tx"
    and t1: "tokenType tx = Some ''ERC721''" "tokens tx = [1]" "\<not> isSwap tx"
    by blast
  have "\<exists>tx. scan testEnv ''0xnfttrader''
               (initializeTransactionData testEnv ''PUNK'' ''0xnfttrader'' ''0xnft'') (logs r5)
             = Next tx
           \<and> isSwap tx \<and> monitorTokenId (swap tx) = None"
    by (simp add: r5_def controller_defs test_defs)
  then obtain tx' where s5: "scan testEnv ''0xnfttrader''
               (initializeTransactionData testEnv ''PUNK'' ''0xnfttrader'' ''0xnft'') (logs r5)
             = Next tx'"
    and t5: "isSwap tx'" "monitorTokenId (swap tx') = None"
    by blast
  from quantity_and_no_tokens [OF g1 l1 m1 s1 refl refl] t1
  have "\<exists>s. parseTransaction testEnv ''0x01'' ''0xnft'' ''PUNK'' = Resolved s \<and> quantity s = 1"
    by simp
  moreover from quantity_and_no_tokens [OF g5 l5 m5 s5 refl refl] t5
  have "parseTransaction testEnv ''0x05'' ''0xnft'' ''PUNK'' = Null [noTokensMessage]"
    by (simp add: truthy_def)
  ultimately show ?thesis by simp
qed

subsection \<open>Dispatch on the payload\<close>

lemma dispatch_shape:
  "dispatch env tx log logAddress logMarket d =
     (case payloadShape d of
        ListingOffer \<Rightarrow> Next (fst (parseSeaport env tx logMarket d))
      | SwapEvent \<Rightarrow>
          (if snd (parseNftTrader env tx log logAddress d) = ResultNull then ReturnNull
           else Next (fst (parseNftTrader env tx log logAddress d)))
      | GenericSale \<Rightarrow> genericSale env tx logMarket d)"
  by (cases "parseSeaport env tx logMarket d"; cases "parseNftTrader env tx log logAddress d")
     (simp add: dispatch_def payloadShape_def isSeaport_def isNftTrader_def)

lemma genericSale_guard:
  "genericSale env tx logMarket d =
     (if length (marketList tx) + 1 = length (tokens tx) then creditPrice env tx logMarket d
      else Next tx)"
  by (simp add: genericSale_def creditPrice_def)

lemma processLog_by_handler:
  assumes "decodedPayload env recipient tx log = Some d"
    and "tx2 = beforeSaleCheck env tx log"
    and "logAddress = toLowerCase (address log)"
    and "logMarket = markets env logAddress"
  shows "processLog env recipient tx log =
     (if isSeaport d then Next (fst (parseSeaport env tx2 logMarket d))
      else if isNftTrader d then
        (if snd (parseNftTrader env tx2 log logAddress d) = ResultNull then ReturnNull
         else Next (fst (parseNftTrader env tx2 log logAddress d)))
      else if length (marketList tx2) + 1 = length (tokens tx2)
        then creditPrice env tx2 logMarket d
      else Next tx2)"
  using assms(2-4)
  by (cases "parseSeaport env tx2 logMarket d"; cases "parseNftTrader env tx2 log logAddress d")
     (simp add: processLog_decoded [OF assms(1)] dispatch_def genericSale_guard)

text \<open>
  C8, as amended. For every decoded payload of a sale event the tests are made in a fixed
  order: the \<open>offer\<close> field first, the \<open>_swapId\<close> field second, the generic sale last.
  A payload with an \<open>offer\<close> field goes to \<open>parseSeaport\<close>, also when it carries a
  \<open>_swapId\<close> field. At most one of the three handlers runs, and the iteration's result
  is that handler's: exactly one runs when the payload has an \<open>offer\<close> or a
  \<open>_swapId\<close> field, or when \<open>marketList.length + 1 = tokens.length\<close>; none runs, and
  the summary is left as it is, when the payload has neither field and that equation
  fails.
\<close>

theorem at_most_one_handler_runs:
  assumes "decodedPayload env recipient tx log = Some d"
    and "tx2 = beforeSaleCheck env tx log"
    and "logAddress = toLowerCase (address log)"
    and "logMarket = markets env logAddress"
  shows "length (handlersRun tx2 d) \<le> 1
       \<and> (isSeaport d \<longrightarrow>
            handlersRun tx2 d = [ListingOffer]
            \<and> processLog env recipient tx log = Next (fst (parseSeaport env tx2 logMarket d)))
       \<and> (\<not> isSeaport d \<and> isNftTrader d \<longrightarrow>
            handlersRun tx2 d = [SwapEvent]
            \<and> processLog env recipient tx log =
                (if snd (parseNftTrader env tx2 log logAddress d) = ResultNull then ReturnNull
                 else Next (fst (parseNftTrader env tx2 log logAddress d))))
       \<and> (\<not> isSeaport d \<and> \<not> isNftTrader d
            \<and> length (marketList tx2) + 1 = length (tokens tx2) \<longrightarrow>
            handlersRun tx2 d = [GenericSale]
            \<and> processLog env recipient tx log = creditPrice env tx2 logMarket d)
       \<and> (\<not> isSeaport d \<and> \<not> isNftTrader d
            \<and> length (marketList tx2) + 1 \<noteq> length (tokens tx2) \<longrightarrow>
            handlersRun tx2 d = []
            \<and> processLog env recipient tx log = Next tx2)"
  by (simp add: processLog_by_handler [OF assms] handlersRun_def)

theorem at_most_one_handler_runs_witness:
  "isSeaport (map_of [(''offer'', Items []), (''_swapId'', Text ''9'')])
   \<and> isNftTrader (map_of [(''offer'', Items []), (''_swapId'', Text ''9'')])
   \<and> handlersRun (testInitialize ''PUNK'' ''0xseaport'' ''0xnft'')
        (map_of [(''offer'', Items []), (''_swapId'', Text ''9'')]) = [ListingOffer]
   \<and> processLog testEnv ''0xseaport'' (testInitialize ''PUNK'' ''0xseaport'' ''0xnft'') seaportOrder
      = Next (testInitialize ''PUNK'' ''0xseaport'' ''0xnft'')"
proof -
  define tx0 where "tx0 = testInitialize ''PUNK'' ''0xseaport'' ''0xnft''"
  define d where "d = map_of [(''offer'', Items []), (''_swapId'', Text ''9'')]"
  have s: "isSeaport d"
    by (simp add: isSeaport_def d_def)
  have n: "isNftTrader d"
    by (simp add: isNftTrader_def d_def)
  have b: "tx0 = beforeSaleCheck testEnv tx0 seaportOrder"
    by (simp add: tx0_def controller_defs test_defs)
  have a: "decodedPayload testEnv ''0xseaport'' tx0 seaportOrder = Some d"
    by (simp add: d_def tx0_def controller_defs test_defs)
  have p: "fst (parseSeaport testEnv tx0
             (markets testEnv (toLowerCase (address seaportOrder))) d) = tx0"
    by (simp add: testEnv_def testSeaport_def)
  from at_most_one_handler_runs [OF a b refl refl] s n p
  show ?thesis unfolding tx0_def d_def by simp
qed

text \<open>
  Against C8 as first stated ("exactly one of the three handlers runs per decoded
  payload"): a LooksRare sale log arriving before any token has been recorded is a sale
  event with a schema, its payload decodes and has neither an \<open>offer\<close> nor a
  \<open>_swapId\<close> field, and line 80 finds \<open>0 + 1 \<noteq> 0\<close>. No handler runs and the iteration
  ends with the summary unchanged.
\<close>

theorem exactly_one_handler_counterexample:
  "decodedPayload testEnv ''0xlooksrare'' (testInitialize ''PUNK'' ''0xlooksrare'' ''0xnft'')
     looksrareSale = Some (map_of [(''price'', Num 1000000000000000000)])
   \<and> handlersRun
        (beforeSaleCheck testEnv (testInitialize ''PUNK'' ''0xlooksrare'' ''0xnft'') looksrareSale)
        (map_of [(''price'', Num 1000000000000000000)]) = []
   \<and> length (handlersRun
        (beforeSaleCheck testEnv (testInitialize ''PUNK'' ''0xlooksrare'' ''0xnft'') looksrareSale)
        (map_of [(''price'', Num 1000000000000000000)])) \<noteq> 1
   \<and> processLog testEnv ''0xlooksrare'' (testInitialize ''PUNK'' ''0xlooksrare'' ''0xnft'')
        looksrareSale = Next (testInitialize ''PUNK'' ''0xlooksrare'' ''0xnft'')"
  by (simp add: handlersRun_def controller_defs test_defs)

subsection \<open>The generic sale-price log\<close>

lemma processLog_generic:
  assumes "decodedPayload env recipient tx log = Some d"
    and "\<not> isSeaport d" and "\<not> isNftTrader d"
  shows "processLog env recipient tx log =
           genericSale env (beforeSaleCheck env tx log) (markets env (toLowerCase (address log))) d"
  using assms(2,3) by (simp add: processLog_decoded [OF assms(1)] dispatch_def)

lemma genericSale_rejected:
  assumes "length (marketList tx) + 1 \<noteq> length (tokens tx)"
  shows "genericSale env tx logMarket d = Next tx"
  using assms by (simp add: genericSale_def)

lemma genericSale_accepted:
  assumes "length (marketList tx) + 1 = length (tokens tx)"
    and "d (priceField m) = Some (Num v)"
  shows "genericSale env tx (Some m) d = Next (credited env tx m v)"
  using assms by (simp add: genericSale_def priceField_def credited_def Let_def)

lemma genericSale_leaves_none_pending:
  assumes "genericSale env tx logMarket d = Next tx'"
  shows "length (marketList tx') + 1 \<noteq> length (tokens tx')"
proof (cases "length (marketList tx) + 1 = length (tokens tx)")
  case False
  with assms show ?thesis by (simp add: genericSale_def)
next
  case True
  with assms show ?thesis
    by (auto simp: genericSale_def Let_def split: option.splits abiValue.splits)
qed

text \<open>
  C1. Take a sale-event log whose decoded payload has neither an \<open>offer\<close> nor a
  \<open>_swapId\<close> field, and let \<open>tx2\<close> be the summary when line 60 is reached (after
  currency detection and token extraction for this log). If
  \<open>marketList.length + 1 \<noteq> tokens.length\<close> in \<open>tx2\<close>, the iteration ends with \<open>tx2\<close>
  unchanged and without error. If the two are equal and the payload holds a number in the
  field \<open>price\<close> (\<open>amount\<close> when the market at the log's address is named as in line
  82), the iteration ends with that number, scaled by the decimals of the current currency,
  added to \<open>totalPrice\<close>, the market appended to \<open>marketList\<close> and the formatted price
  to \<open>prices\<close>. And when the next log is again of this kind and its token extraction
  changes the length of neither \<open>tokens\<close> nor \<open>marketList\<close>, it is rejected.
\<close>

theorem generic_sale_needs_pending_token:
  assumes "decodedPayload env recipient tx log = Some d"
    and "\<not> isSeaport d" and "\<not> isNftTrader d"
    and "markets env (toLowerCase (address log)) = Some m"
    and "tx2 = beforeSaleCheck env tx log"
  shows "(length (marketList tx2) + 1 \<noteq> length (tokens tx2)
            \<longrightarrow> processLog env recipient tx log = Next tx2)
       \<and> (length (marketList tx2) + 1 = length (tokens tx2) \<and> d (priceField m) = Some (Num v)
            \<longrightarrow> processLog env recipient tx log = Next (credited env tx2 m v))
       \<and> (\<forall>t1 log' d'.
            processLog env recipient tx log = Next t1
            \<and> decodedPayload env recipient t1 log' = Some d'
            \<and> \<not> isSeaport d' \<and> \<not> isNftTrader d'
            \<and> length (tokens (beforeSaleCheck env t1 log')) = length (tokens t1)
            \<and> length (marketList (beforeSaleCheck env t1 log')) = length (marketList t1)
            \<longrightarrow> processLog env recipient t1 log' = Next (beforeSaleCheck env t1 log'))"
proof -
  have g: "processLog env recipient tx log = genericSale env tx2 (Some m) d"
    using processLog_generic [OF assms(1-3)] assms(4,5) by simp
  have 1: "length (marketList tx2) + 1 \<noteq> length (tokens tx2)
            \<longrightarrow> processLog env recipient tx log = Next tx2"
    by (simp add: g genericSale_rejected)
  have 2: "length (marketList tx2) + 1 = length (tokens tx2) \<and> d (priceField m) = Some (Num v)
            \<longrightarrow> processLog env recipient tx log = Next (credited env tx2 m v)"
    by (simp add: g genericSale_accepted)
  have 3: "processLog env recipient t1 log' = Next (beforeSaleCheck env t1 log')"
    if a: "processLog env recipient tx log = Next t1"
      "decodedPayload env recipient t1 log' = Some d'"
      "\<not> isSeaport d'" "\<not> isNftTrader d'"
      "length (tokens (beforeSaleCheck env t1 log')) = length (tokens t1)"
      "length (marketList (beforeSaleCheck env t1 log')) = length (marketList t1)"
    for t1 log' d'
  proof -
    from a(1) g have "length (marketList t1) + 1 \<noteq> length (tokens t1)"
      using genericSale_leaves_none_pending by metis
    with a(5,6) have "length (marketList (beforeSaleCheck env t1 log')) + 1
        \<noteq> length (tokens (beforeSaleCheck env t1 log'))"
      by simp
    then show ?thesis
      by (simp add: processLog_generic [OF a(2-4)] genericSale_rejected)
  qed
  from 1 2 3 show ?thesis by blast
qed

lemma toLowerCase_x2y2: "toLowerCase ''0xx2y2'' = ''0xx2y2''"
  by (simp add: toLowerCase_def lowerChar_def)

theorem generic_sale_needs_pending_token_witness:
  "(\<exists>tx1. processLog testEnv ''0xx2y2''
            (beforeSaleCheck testEnv (testInitialize ''PUNK'' ''0xx2y2'' ''0xnft'') transferLog)
            x2y2Sale = Next tx1
          \<and> totalPrice tx1 = (2500000, 18) \<and> length (marketList tx1) = 1
          \<and> processLog testEnv ''0xx2y2'' tx1 x2y2Sale = Next tx1)"
proof -
  define txA where
    "txA = beforeSaleCheck testEnv (testInitialize ''PUNK'' ''0xx2y2'' ''0xnft'') transferLog"
  define m where
    "m = \<lparr>market.name = x2y2Name, logDecoder = Some [(''uint256'', ''amount'')]\<rparr>"
  define d where "d = map_of [(''amount'', Num 2500000), (''price'', Num 7)]"
  define tx1 where "tx1 = credited testEnv txA m 2500000"
  have lists: "tokens txA = [1]" "marketList txA = []" "totalPrice txA = (0, 0)"
    "decimals (currency txA) = 18"
    by (simp_all add: txA_def controller_defs test_defs)
  have same: "beforeSaleCheck testEnv t x2y2Sale = t" if "\<not> isSwap t" for t
    using that by (simp add: controller_defs test_defs)
  have sw: "\<not> isSwap txA" "\<not> isSwap tx1"
    by (simp_all add: tx1_def credited_def txA_def controller_defs test_defs)
  have mk: "market txA = m" "market tx1 = m"
    by (simp_all add: tx1_def credited_def txA_def m_def controller_defs test_defs)
  have env: "saleEventTypes testEnv = [''0xsale'']" "decodeLog testEnv = testDecodeLog"
    by (simp_all add: testEnv_def)
  have lg: "address x2y2Sale = ''0xx2y2''" "topics x2y2Sale = [''0xsale'']"
    "data x2y2Sale = ''0xamount''"
    by (simp_all add: x2y2Sale_def)
  have dp: "decodedPayload testEnv ''0xx2y2'' t x2y2Sale = Some d"
    if "\<not> isSwap t" "market t = m" for t
    using that
    by (simp add: decodedPayload_def same isSale_def selectedMarket_def toLowerCase_x2y2
        includesFirstTopic_def env lg m_def testDecodeLog_def d_def)
  have shape: "\<not> isSeaport d" "\<not> isNftTrader d"
    by (simp_all add: d_def isSeaport_def isNftTrader_def)
  have lm: "markets testEnv (toLowerCase (address x2y2Sale)) = Some m"
    by (simp add: x2y2Sale_def toLowerCase_x2y2 testEnv_def testMarkets_def m_def)
  have field: "d (priceField m) = Some (Num 2500000)"
    by (simp add: priceField_def m_def d_def)
  note inst = generic_sale_needs_pending_token
      [OF dp [OF sw(1) mk(1)] shape lm same [OF sw(1), symmetric], of 2500000]
  from inst lists field have first: "processLog testEnv ''0xx2y2'' txA x2y2Sale = Next tx1"
    by (simp add: tx1_def)
  have keep: "length (tokens (beforeSaleCheck testEnv tx1 x2y2Sale)) = length (tokens tx1)"
    "length (marketList (beforeSaleCheck testEnv tx1 x2y2Sale)) = length (marketList tx1)"
    by (simp_all add: same [OF sw(2)])
  from inst first dp [OF sw(2) mk(2)] shape keep
  have "processLog testEnv ''0xx2y2'' tx1 x2y2Sale = Next (beforeSaleCheck testEnv tx1 x2y2Sale)"
    by blast
  then have second: "processLog testEnv ''0xx2y2'' tx1 x2y2Sale = Next tx1"
    by (simp add: same [OF sw(2)])
  have "totalPrice tx1 = (2500000, 18)" "length (marketList tx1) = 1"
    by (simp_all add: tx1_def credited_def lists testEnv_def addDecimal_def)
  with first second show ?thesis
    unfolding txA_def by blast
qed

subsection \<open>A listing or offer log without a price\<close>

lemma samePrices_refl: "samePrices tx tx"
  by (simp add: samePrices_def)

lemma samePrices_trans: "samePrices a b \<Longrightarrow> samePrices b c \<Longrightarrow> samePrices a c"
  by (simp add: samePrices_def)

lemma samePrices_detectCurrency: "samePrices tx (detectCurrency env tx logAddress)"
  by (simp add: samePrices_def detectCurrency_def split: option.split)

lemma samePrices_beforeSaleCheck:
  assumes "extractorsLeavePrices env"
  shows "samePrices tx (beforeSaleCheck env tx log)"
proof -
  let ?a = "toLowerCase (address log)"
  have "samePrices (detectCurrency env tx ?a) (extractTokens env (detectCurrency env tx ?a) log ?a)"
    using assms by (simp add: extractorsLeavePrices_def extractTokens_def)
  with samePrices_detectCurrency [of tx env ?a] show ?thesis
    unfolding beforeSaleCheck_def Let_def by (rule samePrices_trans)
qed

lemma processLog_seaport:
  assumes "decodedPayload env recipient tx log = Some d"
    and "isSeaport d"
  shows "processLog env recipient tx log =
           Next (fst (parseSeaport env (beforeSaleCheck env tx log)
                        (markets env (toLowerCase (address log))) d))"
  using assms(2)
  by (cases "parseSeaport env (beforeSaleCheck env tx log)
               (markets env (toLowerCase (address log))) d")
     (simp add: processLog_decoded [OF assms(1)] dispatch_def)

text \<open>
  C5. Take a sale-event log whose decoded payload has an \<open>offer\<close> field and on which
  \<open>parseSeaport\<close> returns null, handing back the summary \<open>tx3\<close>. The iteration does
  not abort: it ends with \<open>tx3\<close>, and the scan goes on with the remaining logs from
  \<open>tx3\<close>. If moreover the helpers behave as the spec says of them (the extractor
  leaves the price fields alone, and so does \<open>parseSeaport\<close> when it returns null), then
  \<open>totalPrice\<close>, \<open>marketList\<close> and \<open>prices\<close> after the log are what they were
  before it.
\<close>

theorem seaport_without_price_is_skipped:
  assumes "decodedPayload env recipient tx log = Some d"
    and "isSeaport d"
    and "parseSeaport env (beforeSaleCheck env tx log) (markets env (toLowerCase (address log))) d
           = (tx3, ResultNull)"
  shows "processLog env recipient tx log = Next tx3
       \<and> scan env recipient tx (log # rest) = scan env recipient tx3 rest
       \<and> (extractorsLeavePrices env \<and> seaportSkipLeavesPrices env \<longrightarrow> samePrices tx tx3)"
proof -
  have p: "processLog env recipient tx log = Next tx3"
    using processLog_seaport [OF assms(1,2)] assms(3) by simp
  have "samePrices tx tx3" if h: "extractorsLeavePrices env" "seaportSkipLeavesPrices env"
  proof -
    have "samePrices (beforeSaleCheck env tx log) tx3"
      using h(2) assms(3) unfolding seaportSkipLeavesPrices_def by blast
    with samePrices_beforeSaleCheck [OF h(1), of tx log] show ?thesis
      by (rule samePrices_trans)
  qed
  with p show ?thesis by simp
qed

theorem seaport_without_price_is_skipped_witness:
  "extractorsLeavePrices testEnv \<and> seaportSkipLeavesPrices testEnv
   \<and> (\<exists>tx3. processLog testEnv ''0xseaport'' (testInitialize ''PUNK'' ''0xseaport'' ''0xnft'')
               seaportOrder = Next tx3
            \<and> scan testEnv ''0xseaport'' (testInitialize ''PUNK'' ''0xseaport'' ''0xnft'')
                 [seaportOrder, transferLog]
               = scan testEnv ''0xseaport'' tx3 [transferLog]
            \<and> samePrices (testInitialize ''PUNK'' ''0xseaport'' ''0xnft'') tx3)"
proof -
  define tx0 where "tx0 = testInitialize ''PUNK'' ''0xseaport'' ''0xnft''"
  define d where "d = map_of [(''offer'', Items []), (''_swapId'', Text ''9'')]"
  have e: "extractorsLeavePrices testEnv"
    by (simp add: extractorsLeavePrices_def samePrices_def testEnv_def testSwapToken_def
        testSaleToken_def)
  have s: "seaportSkipLeavesPrices testEnv"
    by (simp add: seaportSkipLeavesPrices_def samePrices_def testEnv_def testSeaport_def)
  have a: "decodedPayload testEnv ''0xseaport'' tx0 seaportOrder = Some d"
    by (simp add: d_def tx0_def controller_defs test_defs)
  have i: "isSeaport d"
    by (simp add: isSeaport_def d_def)
  have p: "parseSeaport testEnv (beforeSaleCheck testEnv tx0 seaportOrder)
             (markets testEnv (toLowerCase (address seaportOrder))) d
           = (beforeSaleCheck testEnv tx0 seaportOrder, ResultNull)"
    by (simp add: testEnv_def testSeaport_def)
  from seaport_without_price_is_skipped [OF a i p, of "[transferLog]"] e s
  show ?thesis unfolding tx0_def by blast
qed

subsection \<open>The invariant of the three lists\<close>

lemma summaryInvariant_detectCurrency:
  "summaryInvariant (detectCurrency env tx logAddress) = summaryInvariant tx"
  by (simp add: summaryInvariant_def detectCurrency_def split: option.split)

lemma summaryInvariant_beforeSaleCheck:
  assumes "helpersKeepInvariant env" and "summaryInvariant tx"
  shows "summaryInvariant (beforeSaleCheck env tx log)"
proof -
  let ?a = "toLowerCase (address log)"
  have "summaryInvariant (detectCurrency env tx ?a)"
    using assms(2) by (simp add: summaryInvariant_detectCurrency)
  with assms(1) show ?thesis
    unfolding helpersKeepInvariant_def beforeSaleCheck_def Let_def extractTokens_def
    by (cases "isSwap (detectCurrency env tx ?a)") simp_all
qed

lemma summaryInvariant_genericSale:
  assumes "summaryInvariant tx" and "genericSale env tx logMarket d = Next tx'"
  shows "summaryInvariant tx'"
proof (cases "length (marketList tx) + 1 = length (tokens tx)")
  case False
  with assms show ?thesis by (simp add: genericSale_def)
next
  case True
  with assms show ?thesis
    by (auto simp: genericSale_def summaryInvariant_def Let_def
        split: option.splits abiValue.splits)
qed

lemma summaryInvariant_dispatch:
  assumes "helpersKeepInvariant env" and "summaryInvariant tx"
    and "dispatch env tx log logAddress logMarket d = Next tx'"
  shows "summaryInvariant tx'"
proof -
  have s: "summaryInvariant (fst (parseSeaport env tx logMarket d))"
    and n: "summaryInvariant (fst (parseNftTrader env tx log logAddress d))"
    using assms(1,2) unfolding helpersKeepInvariant_def by blast+
  show ?thesis
  proof (cases "payloadShape d")
    case ListingOffer
    with assms(3) s show ?thesis by (simp add: dispatch_shape)
  next
    case SwapEvent
    with assms(3) n show ?thesis by (simp add: dispatch_shape split: if_splits)
  next
    case GenericSale
    with assms(3) have "genericSale env tx logMarket d = Next tx'"
      by (simp add: dispatch_shape)
    with assms(2) show ?thesis by (rule summaryInvariant_genericSale)
  qed
qed

lemma processLog_Next_cases:
  assumes "processLog env recipient tx log = Next tx'"
  shows "tx' = beforeSaleCheck env tx log
         \<or> (\<exists>d. dispatch env (beforeSaleCheck env tx log) log (toLowerCase (address log))
                   (markets env (toLowerCase (address log))) d = Next tx')"
  using assms
  by (auto simp: processLog_def Let_def split: if_splits option.splits)

lemma summaryInvariant_processLog:
  assumes "helpersKeepInvariant env" and "summaryInvariant tx"
    and "processLog env recipient tx log = Next tx'"
  shows "summaryInvariant tx'"
  using processLog_Next_cases [OF assms(3)]
    summaryInvariant_beforeSaleCheck [OF assms(1,2), of log]
    summaryInvariant_dispatch [OF assms(1)]
  by blast

lemma summaryInvariant_scan:
  assumes "helpersKeepInvariant env"
  shows "summaryInvariant tx \<Longrightarrow> scan env recipient tx ls = Next tx' \<Longrightarrow> summaryInvariant tx'"
proof (induction ls arbitrary: tx)
  case Nil
  then show ?case by simp
next
  case (Cons l ls)
  from Cons.prems(2) obtain t where t: "processLog env recipient tx l = Next t"
    and r: "scan env recipient t ls = Next tx'"
    by (cases "processLog env recipient tx l") simp_all
  from summaryInvariant_processLog [OF assms Cons.prems(1) t] r show ?case
    by (rule Cons.IH)
qed

text \<open>
  C2. A summary satisfies the invariant when \<open>prices\<close> and \<open>marketList\<close> have the same
  length and \<open>marketList\<close> is no longer than \<open>tokens\<close>. The operations that
  \<open>parseTransaction.ts\<close> itself performs on the summary, currency detection and the
  generic sale of lines 80 to 88, preserve it. If the helper parsers preserve it as well,
  then from a summary that satisfies it the invariant holds at every point of the scan:
  after every prefix of the logs, and within the next iteration after currency detection,
  after token extraction and at the iteration's end.
\<close>

theorem lists_invariant_during_scan:
  assumes "summaryInvariant tx"
  shows "summaryInvariant (detectCurrency env tx logAddress)
       \<and> (\<forall>t. genericSale env tx logMarket d = Next t \<longrightarrow> summaryInvariant t)
       \<and> (helpersKeepInvariant env \<longrightarrow>
            (\<forall>n tx'. scan env recipient tx (take n ls) = Next tx' \<longrightarrow>
               summaryInvariant tx'
               \<and> (n < length ls \<longrightarrow>
                    summaryInvariant (detectCurrency env tx' (toLowerCase (address (ls ! n))))
                    \<and> summaryInvariant (beforeSaleCheck env tx' (ls ! n))
                    \<and> (\<forall>t. processLog env recipient tx' (ls ! n) = Next t
                          \<longrightarrow> summaryInvariant t))))"
proof (intro conjI allI impI)
  show "summaryInvariant (detectCurrency env tx logAddress)"
    using assms by (simp add: summaryInvariant_detectCurrency)
next
  fix t assume "genericSale env tx logMarket d = Next t"
  with assms show "summaryInvariant t" by (rule summaryInvariant_genericSale)
next
  fix n tx'
  assume h: "helpersKeepInvariant env" and s: "scan env recipient tx (take n ls) = Next tx'"
  show i: "summaryInvariant tx'"
    using summaryInvariant_scan [OF h assms s] .
  show "summaryInvariant (detectCurrency env tx' (toLowerCase (address (ls ! n))))"
    using i by (simp add: summaryInvariant_detectCurrency)
  show "summaryInvariant (beforeSaleCheck env tx' (ls ! n))"
    using h i by (rule summaryInvariant_beforeSaleCheck)
  fix t assume "processLog env recipient tx' (ls ! n) = Next t"
  with h i show "summaryInvariant t" by (rule summaryInvariant_processLog)
qed

lemma helpersKeepInvariant_testEnv: "helpersKeepInvariant testEnv"
  by (simp add: helpersKeepInvariant_def summaryInvariant_def testEnv_def testSwapToken_def
      testSaleToken_def testSeaport_def testNftTrader_def)

theorem lists_invariant_during_scan_witness:
  "summaryInvariant (testInitialize ''PUNK'' ''0xlooksrare'' ''0xnft'')
   \<and> helpersKeepInvariant testEnv
   \<and> (\<exists>tx'. scan testEnv ''0xlooksrare'' (testInitialize ''PUNK'' ''0xlooksrare'' ''0xnft'')
               (take 3 [wethLog, transferLog, looksrareSale, looksrareSale]) = Next tx'
            \<and> length (marketList tx') = 1 \<and> length (tokens tx') = 1
            \<and> summaryInvariant tx'
            \<and> (\<exists>t. processLog testEnv ''0xlooksrare'' tx'
                       ([wethLog, transferLog, looksrareSale, looksrareSale] ! 3) = Next t
                     \<and> summaryInvariant t))"
proof -
  define tx0 where "tx0 = testInitialize ''PUNK'' ''0xlooksrare'' ''0xnft''"
  define ls where "ls = [wethLog, transferLog, looksrareSale, looksrareSale]"
  have i: "summaryInvariant tx0"
    by (simp add: summaryInvariant_def tx0_def testInitialize_def)
  have "\<exists>tx'. scan testEnv ''0xlooksrare'' tx0 (take 3 ls) = Next tx'
          \<and> length (marketList tx') = 1 \<and> length (tokens tx') = 1
          \<and> (\<exists>t. processLog testEnv ''0xlooksrare'' tx' (ls ! 3) = Next t)"
    by (simp add: ls_def tx0_def controller_defs test_defs x2y2Name_def)
  then obtain tx' t where s: "scan testEnv ''0xlooksrare'' tx0 (take 3 ls) = Next tx'"
    and l: "length (marketList tx') = 1" "length (tokens tx') = 1"
    and p: "processLog testEnv ''0xlooksrare'' tx' (ls ! 3) = Next t"
    by blast
  have n: "3 < length ls"
    by (simp add: ls_def)
  from lists_invariant_during_scan [OF i, of testEnv "''0xweth''" None Map.empty
      "''0xlooksrare''" ls] helpersKeepInvariant_testEnv s n p
  have "summaryInvariant tx' \<and> summaryInvariant t"
    by blast
  with i s l p helpersKeepInvariant_testEnv show ?thesis
    unfolding tx0_def ls_def by blast
qed

subsection \<open>Currency detection\<close>

lemma detectCurrency_eq:
  "detectCurrency env tx logAddress =
     tx\<lparr>currency := (case currencies env logAddress of
                        None \<Rightarrow> currency tx
                      | Some c \<Rightarrow> if isSweep tx then currency tx else c)\<rparr>"
  by (simp add: detectCurrency_def split: option.split)

lemma isSweep_detectCurrency: "isSweep (detectCurrency env tx logAddress) = isSweep tx"
  by (simp add: detectCurrency_eq)

lemma currency_beforeSaleCheck:
  assumes "helpersLeaveCurrency env"
  shows "currency (beforeSaleCheck env tx log)
           = currency (detectCurrency env tx (toLowerCase (address log)))
         \<and> isSweep (beforeSaleCheck env tx log) = isSweep tx"
proof -
  let ?a = "toLowerCase (address log)"
  let ?t = "detectCurrency env tx ?a"
  have "currency (parseSwapToken env ?t log ?a) = currency ?t
        \<and> isSweep (parseSwapToken env ?t log ?a) = isSweep ?t
        \<and> currency (parseSaleToken env ?t log ?a) = currency ?t
        \<and> isSweep (parseSaleToken env ?t log ?a) = isSweep ?t"
    using assms unfolding helpersLeaveCurrency_def Let_def by blast
  then show ?thesis
    by (simp add: beforeSaleCheck_def Let_def extractTokens_def isSweep_detectCurrency)
qed

lemma currency_genericSale:
  assumes "genericSale env tx logMarket d = Next tx'"
  shows "currency tx' = currency tx \<and> isSweep tx' = isSweep tx"
proof (cases "length (marketList tx) + 1 = length (tokens tx)")
  case False
  with assms show ?thesis by (simp add: genericSale_def)
next
  case True
  with assms show ?thesis
    by (auto simp: genericSale_def Let_def split: option.splits abiValue.splits)
qed

lemma currency_dispatch:
  assumes "helpersLeaveCurrency env"
    and "dispatch env tx log logAddress logMarket d = Next tx'"
  shows "currency tx' = currency tx \<and> isSweep tx' = isSweep tx"
proof -
  have s: "currency (fst (parseSeaport env tx logMarket d)) = currency tx
           \<and> isSweep (fst (parseSeaport env tx logMarket d)) = isSweep tx"
    and n: "currency (fst (parseNftTrader env tx log logAddress d)) = currency tx
           \<and> isSweep (fst (parseNftTrader env tx log logAddress d)) = isSweep tx"
    using assms(1) unfolding helpersLeaveCurrency_def Let_def by blast+
  show ?thesis
  proof (cases "payloadShape d")
    case ListingOffer
    with assms(2) s show ?thesis by (auto simp: dispatch_shape)
  next
    case SwapEvent
    with assms(2) n show ?thesis by (auto simp: dispatch_shape split: if_splits)
  next
    case GenericSale
    with assms(2) have "genericSale env tx logMarket d = Next tx'"
      by (simp add: dispatch_shape)
    then show ?thesis by (rule currency_genericSale)
  qed
qed

lemma currency_processLog:
  assumes "helpersLeaveCurrency env"
    and "processLog env recipient tx log = Next tx'"
  shows "currency tx' = currency (detectCurrency env tx (toLowerCase (address log)))
         \<and> isSweep tx' = isSweep tx"
  using processLog_Next_cases [OF assms(2)] currency_beforeSaleCheck [OF assms(1), of tx log]
    currency_dispatch [OF assms(1)]
  by metis

lemma currency_scan_sweep:
  assumes "helpersLeaveCurrency env"
  shows "isSweep tx \<Longrightarrow> scan env recipient tx ls = Next tx'
         \<Longrightarrow> currency tx' = currency tx \<and> isSweep tx'"
proof (induction ls arbitrary: tx)
  case Nil
  then show ?case by simp
next
  case (Cons l ls)
  from Cons.prems(2) obtain t where t: "processLog env recipient tx l = Next t"
    and r: "scan env recipient t ls = Next tx'"
    by (cases "processLog env recipient tx l") simp_all
  from currency_processLog [OF assms t] Cons.prems(1)
  have "currency t = currency tx" "isSweep t"
    by (simp_all add: detectCurrency_eq split: option.split)
  with Cons.IH [OF _ r] show ?case by simp
qed

text \<open>
  C7. Lines 50 to 52 change no field but \<open>currency\<close>, and set it to the registry's entry
  for the log's address exactly when the registry has one and the summary is not flagged
  as a sweep; otherwise the summary is left as it is. If the helper parsers write neither
  \<open>currency\<close> nor \<open>isSweep\<close>, this is the whole effect of a log on the two fields:
  after the iteration \<open>currency\<close> is that value and \<open>isSweep\<close> is unchanged, and a scan
  that starts from a sweep-flagged summary ends with the currency it started with.
\<close>

theorem currency_overwritten_iff_known_and_not_sweep:
  assumes "logAddress = toLowerCase (address log)"
    and "c' = (case currencies env logAddress of
                 None \<Rightarrow> currency tx
               | Some c \<Rightarrow> if isSweep tx then currency tx else c)"
  shows "detectCurrency env tx logAddress = tx\<lparr>currency := c'\<rparr>
       \<and> (currencies env logAddress = None \<or> isSweep tx
            \<longrightarrow> detectCurrency env tx logAddress = tx)
       \<and> (helpersLeaveCurrency env \<longrightarrow>
            (\<forall>t. processLog env recipient tx log = Next t
                  \<longrightarrow> currency t = c' \<and> isSweep t = isSweep tx)
            \<and> (isSweep tx \<longrightarrow>
                 (\<forall>t. scan env recipient tx ls = Next t
                       \<longrightarrow> currency t = currency tx \<and> isSweep t)))"
proof (intro conjI allI impI)
  show "detectCurrency env tx logAddress = tx\<lparr>currency := c'\<rparr>"
    using assms(2) by (simp add: detectCurrency_eq)
next
  assume "currencies env logAddress = None \<or> isSweep tx"
  then show "detectCurrency env tx logAddress = tx"
    by (auto simp: detectCurrency_def split: option.split)
next
  fix t
  assume h: "helpersLeaveCurrency env" and p: "processLog env recipient tx log = Next t"
  from currency_processLog [OF h p] assms
  show "currency t = c'" and "isSweep t = isSweep tx"
    by (simp_all add: detectCurrency_eq split: option.split)
next
  fix t
  assume h: "helpersLeaveCurrency env" and s: "isSweep tx"
    and r: "scan env recipient tx ls = Next t"
  from currency_scan_sweep [OF h s r]
  show "currency t = currency tx" and "isSweep t" by simp_all
qed

lemma helpersLeaveCurrency_testEnv: "helpersLeaveCurrency testEnv"
  by (simp add: helpersLeaveCurrency_def testEnv_def testSwapToken_def testSaleToken_def
      testSeaport_def testNftTrader_def)

theorem currency_overwritten_iff_known_and_not_sweep_witness:
  "helpersLeaveCurrency testEnv
   \<and> (\<exists>t. processLog testEnv ''0xlooksrare'' (testInitialize ''PUNK'' ''0xlooksrare'' ''0xnft'')
             wethLog = Next t
           \<and> currency t = \<lparr>currency.name = ''WETH'', decimals = 18\<rparr>)
   \<and> isSweep (testInitialize ''PUNK'' ''0xgem'' ''0xnft'')
   \<and> detectCurrency testEnv (testInitialize ''PUNK'' ''0xgem'' ''0xnft'') ''0xweth''
       = testInitialize ''PUNK'' ''0xgem'' ''0xnft''
   \<and> (\<exists>t. scan testEnv ''0xgem'' (testInitialize ''PUNK'' ''0xgem'' ''0xnft'')
             [wethLog, transferLog] = Next t
           \<and> currency t = \<lparr>currency.name = ''ETH'', decimals = 18\<rparr>)"
proof -
  define txL where "txL = testInitialize ''PUNK'' ''0xlooksrare'' ''0xnft''"
  define txG where "txG = testInitialize ''PUNK'' ''0xgem'' ''0xnft''"
  have a: "''0xweth'' = toLowerCase (address wethLog)"
    by (simp add: wethLog_def toLowerCase_def lowerChar_def)
  have c1: "\<lparr>currency.name = ''WETH'', decimals = 18\<rparr>
      = (case currencies testEnv ''0xweth'' of
           None \<Rightarrow> currency txL
         | Some c \<Rightarrow> if isSweep txL then currency txL else c)"
    by (simp add: txL_def testEnv_def testCurrencies_def testInitialize_def)
  have c2: "\<lparr>currency.name = ''ETH'', decimals = 18\<rparr>
      = (case currencies testEnv ''0xweth'' of
           None \<Rightarrow> currency txG
         | Some c \<Rightarrow> if isSweep txG then currency txG else c)"
    by (simp add: txG_def testEnv_def testCurrencies_def testInitialize_def)
  have s: "isSweep txG"
    by (simp add: txG_def testInitialize_def)
  have e: "currency txG = \<lparr>currency.name = ''ETH'', decimals = 18\<rparr>"
    by (simp add: txG_def testInitialize_def)
  have "\<exists>t. processLog testEnv ''0xlooksrare'' txL wethLog = Next t"
    by (simp add: txL_def controller_defs test_defs)
  then obtain t1 where p1: "processLog testEnv ''0xlooksrare'' txL wethLog = Next t1"
    by blast
  have "\<exists>t. scan testEnv ''0xgem'' txG [wethLog, transferLog] = Next t"
    by (simp add: txG_def controller_defs test_defs)
  then obtain t2 where p2: "scan testEnv ''0xgem'' txG [wethLog, transferLog] = Next t2"
    by blast
  from currency_overwritten_iff_known_and_not_sweep [OF a c1, of "''0xlooksrare''" "[]"]
    helpersLeaveCurrency_testEnv p1
  have 1: "currency t1 = \<lparr>currency.name = ''WETH'', decimals = 18\<rparr>"
    by blast
  from currency_overwritten_iff_known_and_not_sweep
      [OF a c2, of "''0xgem''" "[wethLog, transferLog]"] helpersLeaveCurrency_testEnv s e p2
  have 2: "detectCurrency testEnv txG ''0xweth'' = txG
           \<and> currency t2 = \<lparr>currency.name = ''ETH'', decimals = 18\<rparr>"
    by metis
  from 1 2 s p1 p2 helpersLeaveCurrency_testEnv show ?thesis
    unfolding txL_def txG_def by blast
qed

end
